theory Spec2Isabelle
  imports Main "HOL-Library.Word"
begin

section \<open>The backend enumeration\<close>

text \<open>
  \<^verbatim>\<open>class ATFPBackend(IntEnum)\<close> of \<^verbatim>\<open>torch/_op_ctl.py\<close>: six names are bound in
  the class body, the last one, \<^verbatim>\<open>bits\<close>, holding the width of the register.
\<close>

datatype ATFPBackend = ERROR | MATH | MHA | ENCODER | NESTED_TENSOR | bits

fun ATFPBackend_value :: "ATFPBackend \<Rightarrow> int" where
  "ATFPBackend_value ERROR = -1"
| "ATFPBackend_value MATH = 0"
| "ATFPBackend_value MHA = 1"
| "ATFPBackend_value ENCODER = 2"
| "ATFPBackend_value NESTED_TENSOR = 3"
| "ATFPBackend_value bits = 4"

section \<open>The global context register of the native runtime\<close>

text \<open>
  Modelled from the spec: the register and its three primitive operations belong to the
  native runtime (\<^verbatim>\<open>torch._C._get_global_ctx\<close>, \<^verbatim>\<open>torch._C._set_global_ctx\<close>,
  \<^verbatim>\<open>torch._C._unset_global_ctx\<close>), which the module only calls. The spec describes a
  process-wide register of four bits, keyed by small integer indices, with the operations
  get-bit(index) -> bool, set-bit(index) and unset-bit(index). The register is a word of
  four bits; an index outside 0..3 addresses none of them.

  The state also keeps the sequence of primitive calls issued so far, so that the order
  in which a function touches the register can be stated.
\<close>

datatype prim_call = GetCtx int | SetCtx int | UnsetCtx int

record ctx =
  register :: "4 word"
  calls :: "prim_call list"

definition get_global_ctx :: "int \<Rightarrow> ctx \<Rightarrow> bool \<times> ctx" where
  "get_global_ctx ctx_no s =
     (0 \<le> ctx_no \<and> ctx_no < 4 \<and> bit (register s) (nat ctx_no),
      s\<lparr>calls := calls s @ [GetCtx ctx_no]\<rparr>)"

definition set_global_ctx :: "int \<Rightarrow> ctx \<Rightarrow> ctx" where
  "set_global_ctx ctx_no s =
     s\<lparr>register := (if 0 \<le> ctx_no \<and> ctx_no < 4
                     then set_bit (nat ctx_no) (register s) else register s),
       calls := calls s @ [SetCtx ctx_no]\<rparr>"

definition unset_global_ctx :: "int \<Rightarrow> ctx \<Rightarrow> ctx" where
  "unset_global_ctx ctx_no s =
     s\<lparr>register := (if 0 \<le> ctx_no \<and> ctx_no < 4
                     then unset_bit (nat ctx_no) (register s) else register s),
       calls := calls s @ [UnsetCtx ctx_no]\<rparr>"

text \<open>
  What the module sees of the runtime: whether it runs as a script
  (\<^verbatim>\<open>torch.jit.is_scripting()\<close>), the three eager primitives of \<^verbatim>\<open>torch._C\<close> and
  the three traced operators of \<^verbatim>\<open>torch.ops.prim\<close>. The functions of the module take
  it as a parameter.
\<close>

record 's runtime =
  is_scripting :: bool
  C_get_global_ctx :: "int \<Rightarrow> 's \<Rightarrow> bool \<times> 's"
  C_set_global_ctx :: "int \<Rightarrow> 's \<Rightarrow> 's"
  C_unset_global_ctx :: "int \<Rightarrow> 's \<Rightarrow> 's"
  prim_GetGlobalCtx :: "int \<Rightarrow> 's \<Rightarrow> bool \<times> 's"
  prim_SetGlobalCtx :: "int \<Rightarrow> 's \<Rightarrow> 's"
  prim_UnsetGlobalCtx :: "int \<Rightarrow> 's \<Rightarrow> 's"

text \<open>
  Modelled from the spec: the traced operators are "a parallel pair" for "the same three
  register operations", so in the native runtime they are the operations above.
\<close>

definition native_runtime :: "bool \<Rightarrow> ctx runtime" where
  "native_runtime scripting =
     \<lparr>is_scripting = scripting,
      C_get_global_ctx = get_global_ctx,
      C_set_global_ctx = set_global_ctx,
      C_unset_global_ctx = unset_global_ctx,
      prim_GetGlobalCtx = get_global_ctx,
      prim_SetGlobalCtx = set_global_ctx,
      prim_UnsetGlobalCtx = unset_global_ctx\<rparr>"

section \<open>The flag accessors\<close>

text \<open>
  \<^verbatim>\<open>_write_global_ctx(ctx_no, enabled, default=True)\<close>: the bit is unset when
  \<^verbatim>\<open>enabled == default\<close> and set otherwise, on the eager or on the traced path.
\<close>

definition write_global_ctx :: "'s runtime \<Rightarrow> int \<Rightarrow> bool \<Rightarrow> bool \<Rightarrow> 's \<Rightarrow> 's" where
  "write_global_ctx rt ctx_no enabled default' s =
     (if enabled = default' then
        (if \<not> is_scripting rt then C_unset_global_ctx rt ctx_no s
         else prim_UnsetGlobalCtx rt ctx_no s)
      else
        (if \<not> is_scripting rt then C_set_global_ctx rt ctx_no s
         else prim_SetGlobalCtx rt ctx_no s))"

text \<open>
  \<^verbatim>\<open>_is_global_ctx(ctx_no, default=True)\<close>: the raw bit compared with \<^verbatim>\<open>!=\<close> to
  \<^verbatim>\<open>default\<close>.
\<close>

definition is_global_ctx :: "'s runtime \<Rightarrow> int \<Rightarrow> bool \<Rightarrow> 's \<Rightarrow> bool \<times> 's" where
  "is_global_ctx rt ctx_no default' s =
     (if \<not> is_scripting rt then
        (case C_get_global_ctx rt ctx_no s of (b, s') \<Rightarrow> (b \<noteq> default', s'))
      else
        (case prim_GetGlobalCtx rt ctx_no s of (b, s') \<Rightarrow> (b \<noteq> default', s')))"

text \<open>The four pairs; each leaves \<^verbatim>\<open>default\<close> at its default value \<^verbatim>\<open>True\<close>.\<close>

definition atfp_math_enabled :: "'s runtime \<Rightarrow> 's \<Rightarrow> bool \<times> 's" where
  "atfp_math_enabled rt s = is_global_ctx rt 0 True s"

definition enable_atfp_math :: "'s runtime \<Rightarrow> bool \<Rightarrow> 's \<Rightarrow> 's" where
  "enable_atfp_math rt enabled s = write_global_ctx rt 0 enabled True s"

definition atfp_mha_enabled :: "'s runtime \<Rightarrow> 's \<Rightarrow> bool \<times> 's" where
  "atfp_mha_enabled rt s = is_global_ctx rt 1 True s"

definition enable_atfp_mha :: "'s runtime \<Rightarrow> bool \<Rightarrow> 's \<Rightarrow> 's" where
  "enable_atfp_mha rt enabled s = write_global_ctx rt 1 enabled True s"

definition atfp_encoder_enabled :: "'s runtime \<Rightarrow> 's \<Rightarrow> bool \<times> 's" where
  "atfp_encoder_enabled rt s = is_global_ctx rt 2 True s"

definition enable_atfp_encoder :: "'s runtime \<Rightarrow> bool \<Rightarrow> 's \<Rightarrow> 's" where
  "enable_atfp_encoder rt enabled s = write_global_ctx rt 2 enabled True s"

definition atfp_nested_tensor_enabled :: "'s runtime \<Rightarrow> 's \<Rightarrow> bool \<times> 's" where
  "atfp_nested_tensor_enabled rt s = is_global_ctx rt 3 True s"

definition enable_atfp_nested_tensor :: "'s runtime \<Rightarrow> bool \<Rightarrow> 's \<Rightarrow> 's" where
  "enable_atfp_nested_tensor rt enabled s = write_global_ctx rt 3 enabled True s"

section \<open>The scoped configuration\<close>

text \<open>
  The keyword-only arguments of \<^verbatim>\<open>atfp_kernel\<close>, each \<^verbatim>\<open>True\<close> when the caller leaves
  it out.
\<close>

record atfp_kernel_args =
  enable_nested_tensor :: bool
  enable_encoder :: bool
  enable_mha :: bool
  enable_math :: bool

definition atfp_kernel_defaults :: atfp_kernel_args where
  "atfp_kernel_defaults =
     \<lparr>enable_nested_tensor = True, enable_encoder = True,
      enable_mha = True, enable_math = True\<rparr>"

text \<open>The four locals of the generator, alive from the capture to the \<^verbatim>\<open>finally\<close>.\<close>

record previous =
  previous_math :: bool
  previous_mha :: bool
  previous_encoder :: bool
  previous_nested_tensor :: bool

text \<open>
  \<^verbatim>\<open>atfp_kernel\<close> is a generator under \<^verbatim>\<open>contextlib.contextmanager\<close>. Entering the
  \<^verbatim>\<open>with\<close> statement runs it up to the \<^verbatim>\<open>yield\<close>: the four captures, then the four
  writes of the requested values.
\<close>

definition atfp_kernel_enter :: "'s runtime \<Rightarrow> atfp_kernel_args \<Rightarrow> 's \<Rightarrow> previous \<times> 's" where
  "atfp_kernel_enter rt kw s0 =
     (case atfp_math_enabled rt s0 of (p_math, s1) \<Rightarrow>
      case atfp_mha_enabled rt s1 of (p_mha, s2) \<Rightarrow>
      case atfp_encoder_enabled rt s2 of (p_encoder, s3) \<Rightarrow>
      case atfp_nested_tensor_enabled rt s3 of (p_nested_tensor, s4) \<Rightarrow>
        (\<lparr>previous_math = p_math, previous_mha = p_mha,
          previous_encoder = p_encoder, previous_nested_tensor = p_nested_tensor\<rparr>,
         enable_atfp_nested_tensor rt (enable_nested_tensor kw)
           (enable_atfp_encoder rt (enable_encoder kw)
             (enable_atfp_mha rt (enable_mha kw)
               (enable_atfp_math rt (enable_math kw) s4)))))"

text \<open>The \<^verbatim>\<open>finally\<close> block: the four writes of the captured values.\<close>

definition atfp_kernel_exit :: "'s runtime \<Rightarrow> previous \<Rightarrow> 's \<Rightarrow> 's" where
  "atfp_kernel_exit rt prev s =
     enable_atfp_nested_tensor rt (previous_nested_tensor prev)
       (enable_atfp_encoder rt (previous_encoder prev)
         (enable_atfp_mha rt (previous_mha prev)
           (enable_atfp_math rt (previous_math prev) s)))"

text \<open>
  \<^verbatim>\<open>with atfp_kernel(...): block\<close>. The block is any computation on the state that
  returns a value (\<open>Inr\<close>) or raises (\<open>Inl\<close>). On both paths the \<^verbatim>\<open>finally\<close> block runs
  on the state the block left, and then the value is returned or the exception goes on.
  The generator yields an empty dictionary, which gives the block nothing to read, so the
  block takes the state only.
\<close>

definition atfp_kernel ::
  "'s runtime \<Rightarrow> atfp_kernel_args \<Rightarrow> ('s \<Rightarrow> ('e + 'a) \<times> 's) \<Rightarrow> 's \<Rightarrow> ('e + 'a) \<times> 's" where
  "atfp_kernel rt kw block s =
     (case atfp_kernel_enter rt kw s of (prev, s1) \<Rightarrow>
       (case block s1 of
          (Inl exc, s2) \<Rightarrow> (Inl exc, atfp_kernel_exit rt prev s2)
        | (Inr v, s2) \<Rightarrow> (Inr v, atfp_kernel_exit rt prev s2)))"

text \<open>
  The four flags as the four getters report them on a state, in the order math, mha,
  encoder, nested_tensor. It is used to state what a scope does to the flags.
\<close>

definition atfp_flags :: "'s runtime \<Rightarrow> 's \<Rightarrow> bool \<times> bool \<times> bool \<times> bool" where
  "atfp_flags rt s =
     (fst (atfp_math_enabled rt s), fst (atfp_mha_enabled rt s),
      fst (atfp_encoder_enabled rt s), fst (atfp_nested_tensor_enabled rt s))"

section \<open>The native runtime under the accessors\<close>

text \<open>
  What the two private functions do on the native runtime, on either call path, and what
  the entry and the exit of a scope do to the register and to the sequence of calls.
\<close>

lemma is_global_ctx_native:
  "is_global_ctx (native_runtime sc) i d s =
     ((0 \<le> i \<and> i < 4 \<and> bit (register s) (nat i)) \<noteq> d, s\<lparr>calls := calls s @ [GetCtx i]\<rparr>)"
  by (simp add: is_global_ctx_def native_runtime_def get_global_ctx_def)

lemma register_write_native:
  "register (write_global_ctx (native_runtime sc) i e True s) =
     (if 0 \<le> i \<and> i < 4
      then (if e then unset_bit (nat i) (register s) else set_bit (nat i) (register s))
      else register s)"
  by (simp add: write_global_ctx_def native_runtime_def set_global_ctx_def unset_global_ctx_def)

lemma calls_write_native:
  "calls (write_global_ctx (native_runtime sc) i e True s) =
     calls s @ [if e then UnsetCtx i else SetCtx i]"
  by (simp add: write_global_ctx_def native_runtime_def set_global_ctx_def unset_global_ctx_def)

lemmas getter_defs =
  atfp_math_enabled_def atfp_mha_enabled_def atfp_encoder_enabled_def
  atfp_nested_tensor_enabled_def

lemmas setter_defs =
  enable_atfp_math_def enable_atfp_mha_def enable_atfp_encoder_def
  enable_atfp_nested_tensor_def

lemma atfp_flags_native:
  "atfp_flags (native_runtime sc) s =
     (\<not> bit (register s) 0, \<not> bit (register s) 1, \<not> bit (register s) 2, \<not> bit (register s) 3)"
  by (simp add: atfp_flags_def getter_defs is_global_ctx_native)

lemma fst_enter_native:
  "fst (atfp_kernel_enter (native_runtime sc) kw s) =
     \<lparr>previous_math = \<not> bit (register s) 0, previous_mha = \<not> bit (register s) 1,
      previous_encoder = \<not> bit (register s) 2, previous_nested_tensor = \<not> bit (register s) 3\<rparr>"
  by (simp add: atfp_kernel_enter_def getter_defs is_global_ctx_native)

lemma register_enter_native:
  "register (snd (atfp_kernel_enter (native_runtime sc) kw s)) =
     (if enable_nested_tensor kw then unset_bit 3 else set_bit 3)
       ((if enable_encoder kw then unset_bit 2 else set_bit 2)
         ((if enable_mha kw then unset_bit 1 else set_bit 1)
           ((if enable_math kw then unset_bit 0 else set_bit 0) (register s))))"
  by (simp add: atfp_kernel_enter_def getter_defs setter_defs is_global_ctx_native
      register_write_native)

lemma calls_enter_native:
  "calls (snd (atfp_kernel_enter (native_runtime sc) kw s)) =
     calls s @ [GetCtx 0, GetCtx 1, GetCtx 2, GetCtx 3,
       if enable_math kw then UnsetCtx 0 else SetCtx 0,
       if enable_mha kw then UnsetCtx 1 else SetCtx 1,
       if enable_encoder kw then UnsetCtx 2 else SetCtx 2,
       if enable_nested_tensor kw then UnsetCtx 3 else SetCtx 3]"
  by (simp add: atfp_kernel_enter_def getter_defs setter_defs is_global_ctx_native
      calls_write_native)

lemma register_exit_native:
  "register (atfp_kernel_exit (native_runtime sc) prev s) =
     (if previous_nested_tensor prev then unset_bit 3 else set_bit 3)
       ((if previous_encoder prev then unset_bit 2 else set_bit 2)
         ((if previous_mha prev then unset_bit 1 else set_bit 1)
           ((if previous_math prev then unset_bit 0 else set_bit 0) (register s))))"
  by (simp add: atfp_kernel_exit_def setter_defs register_write_native)

lemma calls_exit_native:
  "calls (atfp_kernel_exit (native_runtime sc) prev s) =
     calls s @ [if previous_math prev then UnsetCtx 0 else SetCtx 0,
       if previous_mha prev then UnsetCtx 1 else SetCtx 1,
       if previous_encoder prev then UnsetCtx 2 else SetCtx 2,
       if previous_nested_tensor prev then UnsetCtx 3 else SetCtx 3]"
  by (simp add: atfp_kernel_exit_def setter_defs calls_write_native)

lemma four_cases:
  assumes "n < LENGTH(4)"
  obtains "n = 0" | "n = 1" | "n = 2" | "n = 3"
  using assms by (cases n rule: nat.exhaust) (auto simp: less_Suc_eq numeral_eq_Suc)

lemma write_back_four_bits:
  fixes w v :: "4 word"
  shows "(if \<not> bit w 3 then unset_bit 3 else set_bit 3)
          ((if \<not> bit w 2 then unset_bit 2 else set_bit 2)
            ((if \<not> bit w 1 then unset_bit 1 else set_bit 1)
              ((if \<not> bit w 0 then unset_bit 0 else set_bit 0) v))) = w"
    (is "?lhs = w")
proof (rule bit_word_eqI)
  fix n :: nat
  assume "n < LENGTH(4)"
  then show "bit ?lhs n = bit w n"
    by (cases rule: four_cases) (simp_all add: bit_set_bit_iff bit_unset_bit_iff)
qed

lemma written_four_bits:
  fixes v :: "4 word"
  shows "(\<not> bit ((if d then unset_bit 3 else set_bit 3)
          ((if c then unset_bit 2 else set_bit 2)
            ((if b then unset_bit 1 else set_bit 1)
              ((if a then unset_bit 0 else set_bit 0) v)))) 0) = a"
    and "(\<not> bit ((if d then unset_bit 3 else set_bit 3)
          ((if c then unset_bit 2 else set_bit 2)
            ((if b then unset_bit 1 else set_bit 1)
              ((if a then unset_bit 0 else set_bit 0) v)))) 1) = b"
    and "(\<not> bit ((if d then unset_bit 3 else set_bit 3)
          ((if c then unset_bit 2 else set_bit 2)
            ((if b then unset_bit 1 else set_bit 1)
              ((if a then unset_bit 0 else set_bit 0) v)))) 2) = c"
    and "(\<not> bit ((if d then unset_bit 3 else set_bit 3)
          ((if c then unset_bit 2 else set_bit 2)
            ((if b then unset_bit 1 else set_bit 1)
              ((if a then unset_bit 0 else set_bit 0) v)))) 3) = d"
  by (simp_all add: bit_set_bit_iff bit_unset_bit_iff)

lemma fst_atfp_kernel:
  "fst (atfp_kernel rt kw block s) = fst (block (snd (atfp_kernel_enter rt kw s)))"
  by (simp add: atfp_kernel_def split: sum.splits prod.splits)

lemma snd_atfp_kernel:
  "snd (atfp_kernel rt kw block s) =
     atfp_kernel_exit rt (fst (atfp_kernel_enter rt kw s))
       (snd (block (snd (atfp_kernel_enter rt kw s))))"
  by (simp add: atfp_kernel_def split: sum.splits prod.splits)

lemma register_atfp_kernel_native:
  "register (snd (atfp_kernel (native_runtime sc) kw block s)) = register s"
  by (simp only: snd_atfp_kernel register_exit_native fst_enter_native previous.simps
      write_back_four_bits)

lemma flags_of_register:
  "register s' = register s \<Longrightarrow>
     atfp_flags (native_runtime sc) s' = atfp_flags (native_runtime sc) s"
  by (simp add: atfp_flags_native)

lemma flags_enter_native:
  "atfp_flags (native_runtime sc) (snd (atfp_kernel_enter (native_runtime sc) kw s)) =
     (enable_math kw, enable_mha kw, enable_encoder kw, enable_nested_tensor kw)"
  by (simp only: atfp_flags_native register_enter_native written_four_bits)

lemma calls_atfp_kernel_native:
  "calls (snd (atfp_kernel (native_runtime sc) kw block s)) =
     calls (snd (block (snd (atfp_kernel_enter (native_runtime sc) kw s)))) @
       [if \<not> bit (register s) 0 then UnsetCtx 0 else SetCtx 0,
        if \<not> bit (register s) 1 then UnsetCtx 1 else SetCtx 1,
        if \<not> bit (register s) 2 then UnsetCtx 2 else SetCtx 2,
        if \<not> bit (register s) 3 then UnsetCtx 3 else SetCtx 3]"
  by (simp only: snd_atfp_kernel calls_exit_native fst_enter_native previous.simps)

section \<open>Properties of the flag accessors\<close>

text \<open>
  C3. For each of the four backends and each boolean \<open>x\<close>, calling the setter with \<open>x\<close>
  and then the getter returns \<open>x\<close>, from any state of the register and on either call
  path.
\<close>

theorem setter_then_getter:
  "fst (atfp_math_enabled (native_runtime sc)
          (enable_atfp_math (native_runtime sc) x s)) = x \<and>
   fst (atfp_mha_enabled (native_runtime sc)
          (enable_atfp_mha (native_runtime sc) x s)) = x \<and>
   fst (atfp_encoder_enabled (native_runtime sc)
          (enable_atfp_encoder (native_runtime sc) x s)) = x \<and>
   fst (atfp_nested_tensor_enabled (native_runtime sc)
          (enable_atfp_nested_tensor (native_runtime sc) x s)) = x"
  by (simp add: getter_defs setter_defs is_global_ctx_native register_write_native
      bit_set_bit_iff bit_unset_bit_iff)

text \<open>
  C4. Each getter returns the inversion of the raw bit of the register (raw 0 reads as
  enabled, raw 1 as disabled). Each setter leaves the raw bit at 0 when the requested
  value equals the default \<open>True\<close> and at 1 when it does not, by calling the unset
  primitive in the first case and the set primitive in the second.
\<close>

theorem inverted_bit_semantics:
  "fst (atfp_math_enabled (native_runtime sc) s) = (\<not> bit (register s) 0) \<and>
   fst (atfp_mha_enabled (native_runtime sc) s) = (\<not> bit (register s) 1) \<and>
   fst (atfp_encoder_enabled (native_runtime sc) s) = (\<not> bit (register s) 2) \<and>
   fst (atfp_nested_tensor_enabled (native_runtime sc) s) = (\<not> bit (register s) 3) \<and>
   bit (register (enable_atfp_math (native_runtime sc) x s)) 0 = (x \<noteq> True) \<and>
   bit (register (enable_atfp_mha (native_runtime sc) x s)) 1 = (x \<noteq> True) \<and>
   bit (register (enable_atfp_encoder (native_runtime sc) x s)) 2 = (x \<noteq> True) \<and>
   bit (register (enable_atfp_nested_tensor (native_runtime sc) x s)) 3 = (x \<noteq> True) \<and>
   calls (enable_atfp_math (native_runtime sc) x s) =
     calls s @ [if x = True then UnsetCtx 0 else SetCtx 0] \<and>
   calls (enable_atfp_mha (native_runtime sc) x s) =
     calls s @ [if x = True then UnsetCtx 1 else SetCtx 1] \<and>
   calls (enable_atfp_encoder (native_runtime sc) x s) =
     calls s @ [if x = True then UnsetCtx 2 else SetCtx 2] \<and>
   calls (enable_atfp_nested_tensor (native_runtime sc) x s) =
     calls s @ [if x = True then UnsetCtx 3 else SetCtx 3]"
  by (simp add: getter_defs setter_defs is_global_ctx_native register_write_native
      calls_write_native bit_set_bit_iff bit_unset_bit_iff)

text \<open>
  C5. For every index and every boolean argument, whenever the three traced operators
  act as the three eager primitives do, \<open>is_global_ctx\<close> and \<open>write_global_ctx\<close> return
  the same result and the same state on the scripting path as on the eager path.
\<close>

theorem scripting_path_equivalent:
  assumes "prim_GetGlobalCtx rt = C_get_global_ctx rt"
    and "prim_SetGlobalCtx rt = C_set_global_ctx rt"
    and "prim_UnsetGlobalCtx rt = C_unset_global_ctx rt"
  shows "is_global_ctx (rt\<lparr>is_scripting := True\<rparr>) ctx_no d s =
           is_global_ctx (rt\<lparr>is_scripting := False\<rparr>) ctx_no d s \<and>
         write_global_ctx (rt\<lparr>is_scripting := True\<rparr>) ctx_no enabled d s =
           write_global_ctx (rt\<lparr>is_scripting := False\<rparr>) ctx_no enabled d s"
  using assms by (simp add: is_global_ctx_def write_global_ctx_def)

text \<open>
  The native runtime meets the three hypotheses; the two paths agree there on a read and
  on a write of bit 2 of the register 0101.
\<close>

theorem scripting_path_equivalent_witness:
  "prim_GetGlobalCtx (native_runtime False) = C_get_global_ctx (native_runtime False) \<and>
   prim_SetGlobalCtx (native_runtime False) = C_set_global_ctx (native_runtime False) \<and>
   prim_UnsetGlobalCtx (native_runtime False) = C_unset_global_ctx (native_runtime False) \<and>
   is_global_ctx ((native_runtime False)\<lparr>is_scripting := True\<rparr>) 2 True
       \<lparr>register = 5, calls = []\<rparr> =
     is_global_ctx ((native_runtime False)\<lparr>is_scripting := False\<rparr>) 2 True
       \<lparr>register = 5, calls = []\<rparr> \<and>
   write_global_ctx ((native_runtime False)\<lparr>is_scripting := True\<rparr>) 2 True True
       \<lparr>register = 5, calls = []\<rparr> =
     write_global_ctx ((native_runtime False)\<lparr>is_scripting := False\<rparr>) 2 True True
       \<lparr>register = 5, calls = []\<rparr>"
  using scripting_path_equivalent
    [of "native_runtime False" 2 True "\<lparr>register = 5, calls = []\<rparr>" True]
  by (simp add: native_runtime_def)

text \<open>
  C7. On a fresh register, whose four raw bits are unset, each of the four getters
  returns \<open>True\<close>.
\<close>

theorem fresh_register_all_enabled:
  "fst (atfp_math_enabled (native_runtime sc) \<lparr>register = 0, calls = cs\<rparr>) \<and>
   fst (atfp_mha_enabled (native_runtime sc) \<lparr>register = 0, calls = cs\<rparr>) \<and>
   fst (atfp_encoder_enabled (native_runtime sc) \<lparr>register = 0, calls = cs\<rparr>) \<and>
   fst (atfp_nested_tensor_enabled (native_runtime sc) \<lparr>register = 0, calls = cs\<rparr>)"
  by (simp add: getter_defs is_global_ctx_native)

text \<open>
  C8. Setting one backend's flag leaves the value that each of the three other getters
  returns as it was, for every ordered pair of distinct backends and every boolean, and
  every getter leaves the register as it was.
\<close>

theorem backends_independent:
  "fst (atfp_mha_enabled (native_runtime sc)
          (enable_atfp_math (native_runtime sc) x s)) =
     fst (atfp_mha_enabled (native_runtime sc) s) \<and>
   fst (atfp_encoder_enabled (native_runtime sc)
          (enable_atfp_math (native_runtime sc) x s)) =
     fst (atfp_encoder_enabled (native_runtime sc) s) \<and>
   fst (atfp_nested_tensor_enabled (native_runtime sc)
          (enable_atfp_math (native_runtime sc) x s)) =
     fst (atfp_nested_tensor_enabled (native_runtime sc) s) \<and>
   fst (atfp_math_enabled (native_runtime sc)
          (enable_atfp_mha (native_runtime sc) x s)) =
     fst (atfp_math_enabled (native_runtime sc) s) \<and>
   fst (atfp_encoder_enabled (native_runtime sc)
          (enable_atfp_mha (native_runtime sc) x s)) =
     fst (atfp_encoder_enabled (native_runtime sc) s) \<and>
   fst (atfp_nested_tensor_enabled (native_runtime sc)
          (enable_atfp_mha (native_runtime sc) x s)) =
     fst (atfp_nested_tensor_enabled (native_runtime sc) s) \<and>
   fst (atfp_math_enabled (native_runtime sc)
          (enable_atfp_encoder (native_runtime sc) x s)) =
     fst (atfp_math_enabled (native_runtime sc) s) \<and>
   fst (atfp_mha_enabled (native_runtime sc)
          (enable_atfp_encoder (native_runtime sc) x s)) =
     fst (atfp_mha_enabled (native_runtime sc) s) \<and>
   fst (atfp_nested_tensor_enabled (native_runtime sc)
          (enable_atfp_encoder (native_runtime sc) x s)) =
     fst (atfp_nested_tensor_enabled (native_runtime sc) s) \<and>
   fst (atfp_math_enabled (native_runtime sc)
          (enable_atfp_nested_tensor (native_runtime sc) x s)) =
     fst (atfp_math_enabled (native_runtime sc) s) \<and>
   fst (atfp_mha_enabled (native_runtime sc)
          (enable_atfp_nested_tensor (native_runtime sc) x s)) =
     fst (atfp_mha_enabled (native_runtime sc) s) \<and>
   fst (atfp_encoder_enabled (native_runtime sc)
          (enable_atfp_nested_tensor (native_runtime sc) x s)) =
     fst (atfp_encoder_enabled (native_runtime sc) s) \<and>
   register (snd (atfp_math_enabled (native_runtime sc) s)) = register s \<and>
   register (snd (atfp_mha_enabled (native_runtime sc) s)) = register s \<and>
   register (snd (atfp_encoder_enabled (native_runtime sc) s)) = register s \<and>
   register (snd (atfp_nested_tensor_enabled (native_runtime sc) s)) = register s"
  by (simp add: getter_defs setter_defs is_global_ctx_native register_write_native
      bit_set_bit_iff bit_unset_bit_iff)

text \<open>
  C9. The enumeration binds ERROR to -1, MATH to 0, MHA to 1, ENCODER to 2,
  NESTED_TENSOR to 3 and the width \<^verbatim>\<open>bits\<close> to 4. Each accessor is the private
  function at the index that is its backend's value, on any runtime, and on the native
  runtime the primitive it calls receives that index.
\<close>

theorem backend_indices:
  "map ATFPBackend_value [ERROR, MATH, MHA, ENCODER, NESTED_TENSOR, bits] =
     [-1, 0, 1, 2, 3, 4] \<and>
   atfp_math_enabled rt s = is_global_ctx rt (ATFPBackend_value MATH) True s \<and>
   enable_atfp_math rt x s = write_global_ctx rt (ATFPBackend_value MATH) x True s \<and>
   atfp_mha_enabled rt s = is_global_ctx rt (ATFPBackend_value MHA) True s \<and>
   enable_atfp_mha rt x s = write_global_ctx rt (ATFPBackend_value MHA) x True s \<and>
   atfp_encoder_enabled rt s = is_global_ctx rt (ATFPBackend_value ENCODER) True s \<and>
   enable_atfp_encoder rt x s = write_global_ctx rt (ATFPBackend_value ENCODER) x True s \<and>
   atfp_nested_tensor_enabled rt s =
     is_global_ctx rt (ATFPBackend_value NESTED_TENSOR) True s \<and>
   enable_atfp_nested_tensor rt x s =
     write_global_ctx rt (ATFPBackend_value NESTED_TENSOR) x True s \<and>
   calls (snd (atfp_math_enabled (native_runtime sc) t)) =
     calls t @ [GetCtx (ATFPBackend_value MATH)] \<and>
   calls (snd (atfp_mha_enabled (native_runtime sc) t)) =
     calls t @ [GetCtx (ATFPBackend_value MHA)] \<and>
   calls (snd (atfp_encoder_enabled (native_runtime sc) t)) =
     calls t @ [GetCtx (ATFPBackend_value ENCODER)] \<and>
   calls (snd (atfp_nested_tensor_enabled (native_runtime sc) t)) =
     calls t @ [GetCtx (ATFPBackend_value NESTED_TENSOR)] \<and>
   calls (enable_atfp_math (native_runtime sc) x t) =
     calls t @ [if x then UnsetCtx (ATFPBackend_value MATH)
                else SetCtx (ATFPBackend_value MATH)] \<and>
   calls (enable_atfp_mha (native_runtime sc) x t) =
     calls t @ [if x then UnsetCtx (ATFPBackend_value MHA)
                else SetCtx (ATFPBackend_value MHA)] \<and>
   calls (enable_atfp_encoder (native_runtime sc) x t) =
     calls t @ [if x then UnsetCtx (ATFPBackend_value ENCODER)
                else SetCtx (ATFPBackend_value ENCODER)] \<and>
   calls (enable_atfp_nested_tensor (native_runtime sc) x t) =
     calls t @ [if x then UnsetCtx (ATFPBackend_value NESTED_TENSOR)
                else SetCtx (ATFPBackend_value NESTED_TENSOR)]"
  by (simp add: getter_defs setter_defs is_global_ctx_native calls_write_native)

section \<open>Properties of the scoped configuration\<close>

text \<open>
  C1. Whatever the state before entry, the four keyword arguments and the block, if the
  block raises, the scope ends with the same exception, the four values captured at
  entry are the flags before entry, and after the \<^verbatim>\<open>finally\<close> block the four flags and
  the whole register are what they were before entry.
\<close>

theorem atfp_kernel_restores_when_block_raises:
  assumes "fst (block (snd (atfp_kernel_enter (native_runtime sc) kw s))) = Inl exc"
  shows "fst (atfp_kernel (native_runtime sc) kw block s) = Inl exc \<and>
         (case fst (atfp_kernel_enter (native_runtime sc) kw s) of prev \<Rightarrow>
            (previous_math prev, previous_mha prev, previous_encoder prev,
             previous_nested_tensor prev)) = atfp_flags (native_runtime sc) s \<and>
         atfp_flags (native_runtime sc) (snd (atfp_kernel (native_runtime sc) kw block s)) =
           atfp_flags (native_runtime sc) s \<and>
         register (snd (atfp_kernel (native_runtime sc) kw block s)) = register s"
proof -
  have "fst (atfp_kernel (native_runtime sc) kw block s) = Inl exc"
    using assms by (simp only: fst_atfp_kernel)
  moreover have "register (snd (atfp_kernel (native_runtime sc) kw block s)) = register s"
    by (rule register_atfp_kernel_native)
  moreover from this
  have "atfp_flags (native_runtime sc) (snd (atfp_kernel (native_runtime sc) kw block s)) =
          atfp_flags (native_runtime sc) s"
    by (rule flags_of_register)
  moreover have "(case fst (atfp_kernel_enter (native_runtime sc) kw s) of prev \<Rightarrow>
            (previous_math prev, previous_mha prev, previous_encoder prev,
             previous_nested_tensor prev)) = atfp_flags (native_runtime sc) s"
    by (simp add: fst_enter_native atfp_flags_native)
  ultimately show ?thesis by simp
qed

text \<open>
  From the register 0101, a scope that disables nested_tensor only enters with the
  register 1000; its block disables mha, enables nested_tensor and raises. The exception
  leaves the scope and the register is 0101 again.
\<close>

theorem atfp_kernel_restores_when_block_raises_witness:
  "fst ((\<lambda>st. (Inl ''RuntimeError'' :: string + unit,
           enable_atfp_nested_tensor (native_runtime False) True
             (enable_atfp_mha (native_runtime False) False st)))
        (snd (atfp_kernel_enter (native_runtime False)
           \<lparr>enable_nested_tensor = False, enable_encoder = True,
            enable_mha = True, enable_math = True\<rparr>
           \<lparr>register = 5, calls = []\<rparr>))) = Inl ''RuntimeError'' \<and>
   register (snd (atfp_kernel_enter (native_runtime False)
           \<lparr>enable_nested_tensor = False, enable_encoder = True,
            enable_mha = True, enable_math = True\<rparr>
           \<lparr>register = 5, calls = []\<rparr>)) = 8 \<and>
   fst (atfp_kernel (native_runtime False)
          \<lparr>enable_nested_tensor = False, enable_encoder = True,
           enable_mha = True, enable_math = True\<rparr>
          (\<lambda>st. (Inl ''RuntimeError'' :: string + unit,
             enable_atfp_nested_tensor (native_runtime False) True
               (enable_atfp_mha (native_runtime False) False st)))
          \<lparr>register = 5, calls = []\<rparr>) = Inl ''RuntimeError'' \<and>
   register (snd (atfp_kernel (native_runtime False)
          \<lparr>enable_nested_tensor = False, enable_encoder = True,
           enable_mha = True, enable_math = True\<rparr>
          (\<lambda>st. (Inl ''RuntimeError'' :: string + unit,
             enable_atfp_nested_tensor (native_runtime False) True
               (enable_atfp_mha (native_runtime False) False st)))
          \<lparr>register = 5, calls = []\<rparr>)) = 5"
  using atfp_kernel_restores_when_block_raises
    [of "\<lambda>st. (Inl ''RuntimeError'' :: string + unit,
             enable_atfp_nested_tensor (native_runtime False) True
               (enable_atfp_mha (native_runtime False) False st))"
        False
        "\<lparr>enable_nested_tensor = False, enable_encoder = True,
           enable_mha = True, enable_math = True\<rparr>"
        "\<lparr>register = 5, calls = []\<rparr>" "''RuntimeError''"]
  by (simp add: register_enter_native set_bit_eq_or unset_bit_eq_and_not)

text \<open>
  C2. Whatever the state before entry, the four keyword arguments and the block, if the
  block returns, the scope returns its value, and the four flags and the whole register
  are what they were before entry. Entry issues the four reads in the order math, mha,
  encoder, nested_tensor and then the four writes of the arguments; exit issues, after all
  the calls of the block, the four writes of the captured values in that same order.
\<close>

theorem atfp_kernel_restores_on_normal_exit:
  assumes "fst (block (snd (atfp_kernel_enter (native_runtime sc) kw s))) = Inr v"
  shows "fst (atfp_kernel (native_runtime sc) kw block s) = Inr v \<and>
         atfp_flags (native_runtime sc) (snd (atfp_kernel (native_runtime sc) kw block s)) =
           atfp_flags (native_runtime sc) s \<and>
         register (snd (atfp_kernel (native_runtime sc) kw block s)) = register s \<and>
         calls (snd (atfp_kernel_enter (native_runtime sc) kw s)) =
           calls s @ [GetCtx 0, GetCtx 1, GetCtx 2, GetCtx 3,
             if enable_math kw then UnsetCtx 0 else SetCtx 0,
             if enable_mha kw then UnsetCtx 1 else SetCtx 1,
             if enable_encoder kw then UnsetCtx 2 else SetCtx 2,
             if enable_nested_tensor kw then UnsetCtx 3 else SetCtx 3] \<and>
         calls (snd (atfp_kernel (native_runtime sc) kw block s)) =
           calls (snd (block (snd (atfp_kernel_enter (native_runtime sc) kw s)))) @
           (case atfp_flags (native_runtime sc) s of
              (p_math, p_mha, p_encoder, p_nested_tensor) \<Rightarrow>
                [if p_math then UnsetCtx 0 else SetCtx 0,
                 if p_mha then UnsetCtx 1 else SetCtx 1,
                 if p_encoder then UnsetCtx 2 else SetCtx 2,
                 if p_nested_tensor then UnsetCtx 3 else SetCtx 3])"
proof -
  have "fst (atfp_kernel (native_runtime sc) kw block s) = Inr v"
    using assms by (simp only: fst_atfp_kernel)
  moreover have "register (snd (atfp_kernel (native_runtime sc) kw block s)) = register s"
    by (rule register_atfp_kernel_native)
  moreover from this
  have "atfp_flags (native_runtime sc) (snd (atfp_kernel (native_runtime sc) kw block s)) =
          atfp_flags (native_runtime sc) s"
    by (rule flags_of_register)
  moreover have "calls (snd (atfp_kernel (native_runtime sc) kw block s)) =
           calls (snd (block (snd (atfp_kernel_enter (native_runtime sc) kw s)))) @
           (case atfp_flags (native_runtime sc) s of
              (p_math, p_mha, p_encoder, p_nested_tensor) \<Rightarrow>
                [if p_math then UnsetCtx 0 else SetCtx 0,
                 if p_mha then UnsetCtx 1 else SetCtx 1,
                 if p_encoder then UnsetCtx 2 else SetCtx 2,
                 if p_nested_tensor then UnsetCtx 3 else SetCtx 3])"
    by (simp only: calls_atfp_kernel_native atfp_flags_native prod.case)
  ultimately show ?thesis
    by (simp only: calls_enter_native simp_thms)
qed

text \<open>
  From the register 1000, on the scripting path, a scope that disables mha only, around a
  block that disables encoder and math and returns 7: the value, the final register and
  the fourteen primitive calls in their order.
\<close>

theorem atfp_kernel_restores_on_normal_exit_witness:
  "fst ((\<lambda>st. (Inr (7::int) :: string + int,
           enable_atfp_math (native_runtime True) False
             (enable_atfp_encoder (native_runtime True) False st)))
        (snd (atfp_kernel_enter (native_runtime True)
           \<lparr>enable_nested_tensor = True, enable_encoder = True,
            enable_mha = False, enable_math = True\<rparr>
           \<lparr>register = 8, calls = []\<rparr>))) = Inr 7 \<and>
   atfp_kernel (native_runtime True)
       \<lparr>enable_nested_tensor = True, enable_encoder = True,
        enable_mha = False, enable_math = True\<rparr>
       (\<lambda>st. (Inr (7::int) :: string + int,
          enable_atfp_math (native_runtime True) False
            (enable_atfp_encoder (native_runtime True) False st)))
       \<lparr>register = 8, calls = []\<rparr> =
     (Inr 7,
      \<lparr>register = 8,
       calls = [GetCtx 0, GetCtx 1, GetCtx 2, GetCtx 3,
                UnsetCtx 0, SetCtx 1, UnsetCtx 2, UnsetCtx 3,
                SetCtx 2, SetCtx 0,
                UnsetCtx 0, UnsetCtx 1, UnsetCtx 2, SetCtx 3]\<rparr>)"
proof -
  let ?rt = "native_runtime True"
  let ?kw = "\<lparr>enable_nested_tensor = True, enable_encoder = True,
            enable_mha = False, enable_math = True\<rparr>"
  let ?block = "\<lambda>st. (Inr (7::int) :: string + int,
           enable_atfp_math ?rt False (enable_atfp_encoder ?rt False st))"
  let ?s = "\<lparr>register = 8, calls = []\<rparr>"
  have h: "fst (?block (snd (atfp_kernel_enter ?rt ?kw ?s))) = Inr 7"
    by simp
  have b: "bit (8::4 word) 3" "\<not> bit (8::4 word) 0" "\<not> bit (8::4 word) 1"
    "\<not> bit (8::4 word) 2"
    by code_simp+
  have c: "calls (enable_atfp_math ?rt False (enable_atfp_encoder ?rt False
      (snd (atfp_kernel_enter ?rt ?kw ?s)))) =
      [GetCtx 0, GetCtx 1, GetCtx 2, GetCtx 3,
       UnsetCtx 0, SetCtx 1, UnsetCtx 2, UnsetCtx 3, SetCtx 2, SetCtx 0]"
    by (simp add: setter_defs calls_write_native calls_enter_native)
  from h atfp_kernel_restores_on_normal_exit
    [where block = ?block and sc = True and kw = ?kw and s = ?s and v = 7]
  have "fst (atfp_kernel ?rt ?kw ?block ?s) = Inr 7"
    and "register (snd (atfp_kernel ?rt ?kw ?block ?s)) = 8"
    and "calls (snd (atfp_kernel ?rt ?kw ?block ?s)) =
      [GetCtx 0, GetCtx 1, GetCtx 2, GetCtx 3,
       UnsetCtx 0, SetCtx 1, UnsetCtx 2, UnsetCtx 3, SetCtx 2, SetCtx 0,
       UnsetCtx 0, UnsetCtx 1, UnsetCtx 2, SetCtx 3]"
    by (simp_all add: c atfp_flags_native b)
  then have "atfp_kernel ?rt ?kw ?block ?s =
     (Inr 7,
      \<lparr>register = 8,
       calls = [GetCtx 0, GetCtx 1, GetCtx 2, GetCtx 3,
                UnsetCtx 0, SetCtx 1, UnsetCtx 2, UnsetCtx 3,
                SetCtx 2, SetCtx 0,
                UnsetCtx 0, UnsetCtx 1, UnsetCtx 2, SetCtx 3]\<rparr>)"
    by (cases "atfp_kernel ?rt ?kw ?block ?s") simp
  with h show ?thesis by simp
qed

text \<open>
  C6. Two nested scopes, the block of the outer one being the inner scope. The state \<open>s1\<close>
  in which the inner scope is entered has the flags the outer scope asked for; after the
  exit of the inner scope (\<open>s2\<close>) the register and the flags are those of \<open>s1\<close>; the
  outer exit runs on \<open>s2\<close> and gives back the register and the flags of the state \<open>s0\<close>
  before the outer entry. The inner scope also restores the register of any other state
  \<open>t\<close> in which it may be entered.
\<close>

theorem nested_atfp_kernel_scopes:
  "(let rt = native_runtime sc;
        s1 = snd (atfp_kernel_enter rt outer s0);
        s2 = snd (atfp_kernel rt inner block s1);
        s3 = snd (atfp_kernel rt outer (atfp_kernel rt inner block) s0)
    in atfp_flags rt s1 =
         (enable_math outer, enable_mha outer, enable_encoder outer,
          enable_nested_tensor outer) \<and>
       register s2 = register s1 \<and>
       atfp_flags rt s2 = atfp_flags rt s1 \<and>
       s3 = atfp_kernel_exit rt (fst (atfp_kernel_enter rt outer s0)) s2 \<and>
       register s3 = register s0 \<and>
       atfp_flags rt s3 = atfp_flags rt s0 \<and>
       register (snd (atfp_kernel rt inner block t)) = register t)"
proof -
  let ?rt = "native_runtime sc"
  let ?s1 = "snd (atfp_kernel_enter ?rt outer s0)"
  let ?s2 = "snd (atfp_kernel ?rt inner block ?s1)"
  let ?s3 = "snd (atfp_kernel ?rt outer (atfp_kernel ?rt inner block) s0)"
  have entered: "atfp_flags ?rt ?s1 =
      (enable_math outer, enable_mha outer, enable_encoder outer,
       enable_nested_tensor outer)"
    by (rule flags_enter_native)
  have inner_reg: "register ?s2 = register ?s1"
    by (rule register_atfp_kernel_native)
  have inner_flags: "atfp_flags ?rt ?s2 = atfp_flags ?rt ?s1"
    using inner_reg by (rule flags_of_register)
  have outer_exit: "?s3 = atfp_kernel_exit ?rt (fst (atfp_kernel_enter ?rt outer s0)) ?s2"
    by (rule snd_atfp_kernel)
  have outer_reg: "register ?s3 = register s0"
    by (rule register_atfp_kernel_native)
  have outer_flags: "atfp_flags ?rt ?s3 = atfp_flags ?rt s0"
    using outer_reg by (rule flags_of_register)
  have any_entry: "register (snd (atfp_kernel ?rt inner block t)) = register t"
    by (rule register_atfp_kernel_native)
  show ?thesis
    unfolding Let_def
    using entered inner_reg inner_flags outer_exit outer_reg outer_flags any_entry
    by (intro conjI)
qed

text \<open>
  C10. Right after entry each flag equals its keyword argument. With every argument left
  at its default all four flags are enabled after entry, and a block that reads them sees
  them so; from the register 1111, where all four are disabled, entry with the defaults
  changes the register to 0000.
\<close>

theorem atfp_kernel_entry_applies_arguments:
  "atfp_flags (native_runtime sc) (snd (atfp_kernel_enter (native_runtime sc) kw s)) =
     (enable_math kw, enable_mha kw, enable_encoder kw, enable_nested_tensor kw) \<and>
   atfp_flags (native_runtime sc)
       (snd (atfp_kernel_enter (native_runtime sc) atfp_kernel_defaults s)) =
     (True, True, True, True) \<and>
   fst (atfp_kernel (native_runtime sc) atfp_kernel_defaults
          (\<lambda>st. (Inr (atfp_flags (native_runtime sc) st), st)) s) =
     Inr (True, True, True, True) \<and>
   atfp_flags (native_runtime sc) \<lparr>register = 15, calls = []\<rparr> =
     (False, False, False, False) \<and>
   register (snd (atfp_kernel_enter (native_runtime sc) atfp_kernel_defaults
       \<lparr>register = 15, calls = []\<rparr>)) = 0"
proof -
  have "atfp_flags (native_runtime sc) \<lparr>register = 15, calls = []\<rparr> =
     (False, False, False, False)"
    by (simp add: atfp_flags_native)
  moreover have "register (snd (atfp_kernel_enter (native_runtime sc) atfp_kernel_defaults
       \<lparr>register = 15, calls = []\<rparr>)) = 0"
    by (simp add: register_enter_native atfp_kernel_defaults_def unset_bit_eq_and_not)
  ultimately show ?thesis
    by (simp add: flags_enter_native fst_atfp_kernel atfp_kernel_defaults_def)
qed

end
